theory Spec2Isabelle
  imports Main "HOL-Library.Sublist" "HOL-Library.Word"
begin

section \<open>python-terraform: the command encoder and the process runner\<close>

text \<open>
  A shallow embedding of \<^verbatim>\<open>python_terraform/__init__.py\<close> (class \<^verbatim>\<open>Terraform\<close>).
  Python 3 semantics are taken for the built-in operations the class calls
  (\<^verbatim>\<open>str.split\<close>, \<^verbatim>\<open>str.replace\<close>, \<^verbatim>\<open>str.format\<close>, \<^verbatim>\<open>str.join\<close>, \<^verbatim>\<open>str.lstrip\<close>,
  \<^verbatim>\<open>bytes.decode\<close>, \<^verbatim>\<open>os.path.join\<close> on POSIX).

  A Python \<^verbatim>\<open>str\<close> is a sequence of code points. The strings the encoder handles
  (option names, option values, positional arguments, paths) are modelled by
  \<^typ>\<open>string\<close>, one \<^typ>\<open>char\<close> per code point, so they range over the code
  points below 256. The text decoded from the child process is modelled by
  \<open>unicode\<close>, a list of code points of any size.
\<close>

subsection \<open>Python values that occur as option values\<close>

text \<open>
  The options mapping of the source is a dynamically typed \<^verbatim>\<open>dict\<close>. The model
  covers the values the source distinguishes: \<^verbatim>\<open>None\<close>, \<^verbatim>\<open>bool\<close>, \<^verbatim>\<open>int\<close>, \<^verbatim>\<open>str\<close>,
  a \<^verbatim>\<open>list\<close> of those and a \<^verbatim>\<open>dict\<close> of those. A \<^verbatim>\<open>dict\<close> is an association list
  in iteration (insertion) order.
\<close>

datatype pyscalar = PNone | PBool bool | PInt int | PStr string

datatype pyval =
    Scalar pyscalar
  | PList "pyscalar list"
  | PDict "(pyscalar \<times> pyscalar) list"

type_synonym kwargs = "(string \<times> pyval) list"

text \<open>Decimal rendering of an \<^verbatim>\<open>int\<close>, as \<^verbatim>\<open>str(i)\<close> gives it.\<close>

definition digit_char :: "nat \<Rightarrow> char" where
  "digit_char d = ''0123456789'' ! (d mod 10)"

fun digits :: "nat \<Rightarrow> string" where
  "digits n = (if n < 10 then [digit_char n] else digits (n div 10) @ [digit_char (n mod 10)])"

declare digits.simps [simp del]

definition str_int :: "int \<Rightarrow> string" where
  "str_int i = (if i < 0 then ''-'' @ digits (nat (- i)) else digits (nat i))"

text \<open>
  \<^verbatim>\<open>'{v}'.format(v=x)\<close> with an empty format specification is \<^verbatim>\<open>str(x)\<close> for the
  values of the model.
\<close>

fun py_format :: "pyscalar \<Rightarrow> string" where
  "py_format PNone = ''None''"
| "py_format (PBool True) = ''True''"
| "py_format (PBool False) = ''False''"
| "py_format (PInt i) = str_int i"
| "py_format (PStr s) = s"

text \<open>Truth value testing, \<^verbatim>\<open>bool(x)\<close>; \<^verbatim>\<open>not x\<close> is its negation.\<close>

fun truthy :: "pyscalar \<Rightarrow> bool" where
  "truthy PNone = False"
| "truthy (PBool b) = b"
| "truthy (PInt i) = (i \<noteq> 0)"
| "truthy (PStr s) = (s \<noteq> [])"

text \<open>\<^verbatim>\<open>type(v) is bool\<close>\<close>

fun is_bool :: "pyscalar \<Rightarrow> bool" where
  "is_bool (PBool b) = True"
| "is_bool x = False"

subsection \<open>String operations of the Python library\<close>

text \<open>\<^verbatim>\<open>s.replace(a, b)\<close> for one-character \<^verbatim>\<open>a\<close> and \<^verbatim>\<open>b\<close>.\<close>

fun py_replace :: "char \<Rightarrow> char \<Rightarrow> string \<Rightarrow> string" where
  "py_replace a b [] = []"
| "py_replace a b (c # cs) = (if c = a then b else c) # py_replace a b cs"

text \<open>
  The code points for which \<^verbatim>\<open>str.isspace\<close> holds; \<^verbatim>\<open>str.split()\<close> and
  \<^verbatim>\<open>str.lstrip()\<close> without arguments use this set.
\<close>

definition py_isspace :: "nat \<Rightarrow> bool" where
  "py_isspace c \<longleftrightarrow>
     (9 \<le> c \<and> c \<le> 13) \<or> (28 \<le> c \<and> c \<le> 32) \<or> c = 133 \<or> c = 160 \<or> c = 5760 \<or>
     (8192 \<le> c \<and> c \<le> 8202) \<or> c = 8232 \<or> c = 8233 \<or> c = 8239 \<or> c = 8287 \<or> c = 12288"

definition char_isspace :: "char \<Rightarrow> bool" where
  "char_isspace c = py_isspace (of_char c)"

text \<open>
  \<^verbatim>\<open>s.split()\<close>: the maximal runs of non-whitespace characters, in order.
  \<open>split_acc w s\<close> scans \<open>s\<close> with the word \<open>w\<close> read so far.
\<close>

fun split_acc :: "string \<Rightarrow> string \<Rightarrow> string list" where
  "split_acc w [] = (if w = [] then [] else [w])"
| "split_acc w (c # cs) =
     (if char_isspace c then (if w = [] then split_acc [] cs else w # split_acc [] cs)
      else split_acc (w @ [c]) cs)"

definition py_split :: "string \<Rightarrow> string list" where
  "py_split s = split_acc [] s"

text \<open>\<^verbatim>\<open>' '.join(xs)\<close>\<close>

fun join_space :: "string list \<Rightarrow> string" where
  "join_space [] = []"
| "join_space [x] = x"
| "join_space (x # y # ys) = x @ '' '' @ join_space (y # ys)"

subsection \<open>The orchestrator object\<close>

text \<open>
  The fields \<^verbatim>\<open>__init__\<close> sets. \<open>'d\<close> is the type of a state document, what
  \<^verbatim>\<open>Tfstate.load_file\<close> returns; \<open>tfstate\<close> starts as the empty \<^verbatim>\<open>dict\<close>, which is
  \<open>None\<close> here, and holds \<open>Some\<close> loaded document afterwards.
\<close>

record 'd terraform =
  working_dir :: "string option"
  state :: "string option"
  targets :: "pyscalar list"
  variables :: "(pyscalar \<times> pyscalar) list"
  parallelism :: "int option"
  terraform_bin_path :: string
  var_file :: "string option"
  input :: bool
  tfstate :: "'d option"

text \<open>
  \<^verbatim>\<open>Terraform.__init__\<close>, each argument \<open>None\<close> when it is left out. An empty
  \<^verbatim>\<open>terraform_bin_path\<close> is falsy and gives the default as well.
\<close>

definition init ::
  "string option \<Rightarrow> pyscalar list option \<Rightarrow> string option \<Rightarrow> (pyscalar \<times> pyscalar) list option \<Rightarrow>
   int option \<Rightarrow> string option \<Rightarrow> string option \<Rightarrow> 'd terraform" where
  "init working_dir' targets' state' variables' parallelism' var_file' terraform_bin_path' =
     \<lparr> working_dir = working_dir',
       state = state',
       targets = (case targets' of None \<Rightarrow> [] | Some ts \<Rightarrow> ts),
       variables = (case variables' of None \<Rightarrow> [] | Some vs \<Rightarrow> vs),
       parallelism = parallelism',
       terraform_bin_path =
         (case terraform_bin_path' of None \<Rightarrow> ''terraform''
          | Some p \<Rightarrow> if p \<noteq> [] then p else ''terraform''),
       var_file = var_file',
       input = False,
       tfstate = None \<rparr>"

subsection \<open>The command encoder: \<^verbatim>\<open>generate_cmd_string\<close>\<close>

text \<open>Lines 97-98: the option name, with \<^verbatim>\<open>_\<close> replaced by \<^verbatim>\<open>-\<close> when it has one.\<close>

definition option_name :: "string \<Rightarrow> string" where
  "option_name k = (if CHR ''_'' \<in> set k then py_replace (CHR ''_'') (CHR ''-'') k else k)"

text \<open>
  The body of the loop over \<^verbatim>\<open>kwargs.items()\<close> (lines 96-123): the tokens one
  entry appends to \<^verbatim>\<open>cmds\<close>. The branches are in the order of the source.
\<close>

fun encode_option :: "string \<times> pyval \<Rightarrow> string list" where
  "encode_option (k, PList vs) =
     map (\<lambda>sub_v. ''-'' @ option_name k @ ''='' @ py_format sub_v) vs"
| "encode_option (k, PDict d) =
     map (\<lambda>(sub_k, sub_v).
            ''-'' @ option_name k @ ''='' @ [CHR 0x27] @ py_format sub_k @ ''='' @
            py_format sub_v @ [CHR 0x27]) d"
| "encode_option (k, Scalar v) =
     (if v = PStr [] then [''-'' @ option_name k]
      else if \<not> truthy v then []
      else
        let v' = (if is_bool v then PStr (if truthy v then ''true'' else ''false'') else v)
        in [''-'' @ option_name k @ ''='' @ py_format v'])"

text \<open>The loop itself: \<^verbatim>\<open>cmds\<close> is the accumulator.\<close>

fun encode_options :: "string list \<Rightarrow> kwargs \<Rightarrow> string list" where
  "encode_options cmds [] = cmds"
| "encode_options cmds (kv # rest) = encode_options (cmds @ encode_option kv) rest"

text \<open>The token list before it is joined (lines 93-125).\<close>

definition generate_cmd_tokens :: "'d terraform \<Rightarrow> string \<Rightarrow> string list \<Rightarrow> kwargs \<Rightarrow> string list" where
  "generate_cmd_tokens self cmd' args kw =
     encode_options ([terraform_bin_path self] @ py_split cmd') kw @ args"

definition generate_cmd_string :: "'d terraform \<Rightarrow> string \<Rightarrow> string list \<Rightarrow> kwargs \<Rightarrow> string" where
  "generate_cmd_string self cmd' args kw = join_space (generate_cmd_tokens self cmd' args kw)"

subsection \<open>Decoding the captured streams\<close>

type_synonym byte = "8 word"

type_synonym unicode = "nat list"

text \<open>
  \<^verbatim>\<open>bytes.decode('utf-8')\<close> with the default strict error handling, on the values
  of the bytes: \<open>None\<close> where Python raises \<^verbatim>\<open>UnicodeDecodeError\<close> (a stray or
  missing continuation byte, an overlong form, a surrogate, a code point above
  \<^verbatim>\<open>0x10FFFF\<close>).
\<close>

definition continuation :: "nat \<Rightarrow> bool" where
  "continuation b \<longleftrightarrow> 128 \<le> b \<and> b \<le> 191"

text \<open>The range allowed for the second byte after the lead byte \<open>b\<close>.\<close>

definition second_ok :: "nat \<Rightarrow> nat \<Rightarrow> bool" where
  "second_ok b c \<longleftrightarrow>
     (if b = 224 then 160 \<le> c \<and> c \<le> 191
      else if b = 237 then 128 \<le> c \<and> c \<le> 159
      else if b = 240 then 144 \<le> c \<and> c \<le> 191
      else if b = 244 then 128 \<le> c \<and> c \<le> 143
      else continuation c)"

fun utf8_points :: "nat list \<Rightarrow> unicode option" where
  "utf8_points [] = Some []"
| "utf8_points (b # bs) =
     (if b < 128 then map_option ((#) b) (utf8_points bs)
      else if 194 \<le> b \<and> b \<le> 223 then
        (case bs of
           c1 # r \<Rightarrow>
             if continuation c1
             then map_option ((#) ((b - 192) * 64 + (c1 - 128))) (utf8_points r)
             else None
         | _ \<Rightarrow> None)
      else if 224 \<le> b \<and> b \<le> 239 then
        (case bs of
           c1 # c2 # r \<Rightarrow>
             if second_ok b c1 \<and> continuation c2
             then map_option ((#) ((b - 224) * 4096 + (c1 - 128) * 64 + (c2 - 128)))
                    (utf8_points r)
             else None
         | _ \<Rightarrow> None)
      else if 240 \<le> b \<and> b \<le> 244 then
        (case bs of
           c1 # c2 # c3 # r \<Rightarrow>
             if second_ok b c1 \<and> continuation c2 \<and> continuation c3
             then map_option
                    ((#) ((b - 240) * 262144 + (c1 - 128) * 4096 + (c2 - 128) * 64 + (c3 - 128)))
                    (utf8_points r)
             else None
         | _ \<Rightarrow> None)
      else None)"

definition utf8_decode :: "byte list \<Rightarrow> unicode option" where
  "utf8_decode bs = utf8_points (map unat bs)"

text \<open>A string of the encoder's side as decoded text, and \<^verbatim>\<open>str.lstrip()\<close> on it.\<close>

definition text_of :: "string \<Rightarrow> unicode" where
  "text_of s = map of_char s"

definition py_lstrip :: "unicode \<Rightarrow> unicode" where
  "py_lstrip t = dropWhile py_isspace t"

subsection \<open>Errors, JSON values and the environment\<close>

text \<open>
  The exceptions that leave the methods. \<open>StateLoadError\<close> stands for whatever
  \<^verbatim>\<open>Tfstate.load_file\<close> raises.
\<close>

datatype exn =
    RuntimeError unicode
  | UnicodeDecodeError
  | StateLoadError
  | JSONDecodeError
  | KeyError unicode
  | TypeError

text \<open>
  What \<^verbatim>\<open>json.loads\<close> returns: \<open>JNull\<close> is Python's \<^verbatim>\<open>None\<close>, \<open>'n\<close> the type of
  numbers, and a \<^verbatim>\<open>dict\<close> is an association list with one entry per key.
\<close>

datatype 'n json =
    JNull
  | JBool bool
  | JNum 'n
  | JStr unicode
  | JList "'n json list"
  | JDict "(unicode \<times> 'n json) list"

text \<open>\<^verbatim>\<open>obj[key]\<close> for a \<^verbatim>\<open>str\<close> key: only a \<^verbatim>\<open>dict\<close> can be subscripted by one.\<close>

fun getitem :: "'n json \<Rightarrow> unicode \<Rightarrow> exn + 'n json" where
  "getitem (JDict d) key = (case map_of d key of None \<Rightarrow> Inl (KeyError key) | Some v \<Rightarrow> Inr v)"
| "getitem j key = Inl TypeError"

text \<open>
  What the class does not define itself is a parameter of the model:
  \<^item> \<open>popen\<close>: running a command line through the shell in the world \<open>'w\<close> (the file
    system and whatever else the tool touches) until the child exits, giving its exit
    code, the bytes of its stdout and stderr, and the world it leaves. \<open>None\<close> is a
    child that never exits: \<^verbatim>\<open>communicate()\<close> then blocks for ever.
  \<^item> \<open>load_file\<close>: \<^verbatim>\<open>Tfstate.load_file\<close>, of the module \<^verbatim>\<open>python_terraform.tfstate\<close>;
    \<open>None\<close> where it raises.
  \<^item> \<open>json_loads\<close>: \<^verbatim>\<open>json.loads\<close>; \<open>None\<close> where it raises.
\<close>

record ('w, 'd, 'n) env =
  popen :: "string \<Rightarrow> 'w \<Rightarrow> ((int \<times> byte list \<times> byte list) \<times> 'w) option"
  load_file :: "string \<Rightarrow> 'w \<Rightarrow> 'd option"
  json_loads :: "unicode \<Rightarrow> 'n json option"

text \<open>
  The state a method call runs in: the object, the world, and the trace of the
  child processes spawned and the state files whose load was attempted, oldest first.
  Logging is left out.
\<close>

datatype event = Spawn string | Load string

record ('w, 'd) machine =
  self :: "'d terraform"
  world :: 'w
  trace :: "event list"

fun is_Load :: "event \<Rightarrow> bool" where
  "is_Load (Load p) = True"
| "is_Load (Spawn c) = False"

definition reloads :: "('w, 'd) machine \<Rightarrow> nat" where
  "reloads m = length (filter is_Load (trace m))"

subsection \<open>\<^verbatim>\<open>read_state_file\<close>\<close>

text \<open>\<^verbatim>\<open>os.path.join(a, b)\<close> on POSIX, for two components.\<close>

definition path_join :: "string \<Rightarrow> string \<Rightarrow> string" where
  "path_join a b =
     (case b of
        c # cs \<Rightarrow>
          if c = CHR ''/'' then b
          else if a = [] then b
          else if last a = CHR ''/'' then a @ b
          else a @ ''/'' @ b
      | [] \<Rightarrow> if a = [] then [] else if last a = CHR ''/'' then a else a @ ''/'')"

text \<open>Lines 181-188: the path that is handed to the loader.\<close>

definition state_file_path :: "'d terraform \<Rightarrow> string option \<Rightarrow> string" where
  "state_file_path slf file_path =
     (let fp1 = (case file_path of
                   None \<Rightarrow> state slf
                 | Some p \<Rightarrow> if p \<noteq> [] then Some p else state slf);
          fp2 = (case fp1 of
                   None \<Rightarrow> ''terraform.tfstate''
                 | Some p \<Rightarrow> if p \<noteq> [] then p else ''terraform.tfstate'')
      in case working_dir slf of
           None \<Rightarrow> fp2
         | Some wd \<Rightarrow> if wd \<noteq> [] then path_join wd fp2 else fp2)"

definition read_state_file ::
  "('w, 'd, 'n) env \<Rightarrow> string option \<Rightarrow> ('w, 'd) machine \<Rightarrow> (exn + unit) \<times> ('w, 'd) machine" where
  "read_state_file e file_path m =
     (let fp = state_file_path (self m) file_path;
          m1 = m\<lparr>trace := trace m @ [Load fp]\<rparr>
      in case load_file e fp (world m1) of
           None \<Rightarrow> (Inl StateLoadError, m1)
         | Some d \<Rightarrow> (Inr (), m1\<lparr>self := (self m1)\<lparr>tfstate := Some d\<rparr>\<rparr>))"

subsection \<open>The process runner: \<^verbatim>\<open>cmd\<close>\<close>

text \<open>
  Lines 144-157. The result is \<open>None\<close> when the child never exits, an exception
  (\<open>Inl\<close>) or the returned triple (\<open>Inr\<close>), with the machine the call leaves.
\<close>

definition cmd ::
  "('w, 'd, 'n) env \<Rightarrow> string \<Rightarrow> string list \<Rightarrow> kwargs \<Rightarrow> ('w, 'd) machine \<Rightarrow>
   ((exn + int \<times> unicode \<times> unicode) \<times> ('w, 'd) machine) option" where
  "cmd e cmd' args kw m =
     (let cmd_string = generate_cmd_string (self m) cmd' args kw;
          m1 = m\<lparr>trace := trace m @ [Spawn cmd_string]\<rparr>
      in case popen e cmd_string (world m1) of
           None \<Rightarrow> None
         | Some ((ret_code, out, err), w) \<Rightarrow>
             (case (if ret_code = 0 then read_state_file e None (m1\<lparr>world := w\<rparr>)
                    else (Inr (), m1\<lparr>world := w\<rparr>)) of
                (Inl x, m2) \<Rightarrow> Some (Inl x, m2)
              | (Inr u, m2) \<Rightarrow>
                  (case utf8_decode out of
                     None \<Rightarrow> Some (Inl UnicodeDecodeError, m2)
                   | Some out' \<Rightarrow>
                       (case utf8_decode err of
                          None \<Rightarrow> Some (Inl UnicodeDecodeError, m2)
                        | Some err' \<Rightarrow> Some (Inr (ret_code, out', err'), m2)))))"

subsection \<open>\<^verbatim>\<open>apply\<close> and \<^verbatim>\<open>output\<close>\<close>

text \<open>\<^verbatim>\<open>d[k] = v\<close>: a key already there keeps its place, a new key goes last.\<close>

fun dict_set :: "'k \<Rightarrow> 'v \<Rightarrow> ('k \<times> 'v) list \<Rightarrow> ('k \<times> 'v) list" where
  "dict_set k v [] = [(k, v)]"
| "dict_set k v ((k', v') # d) =
     (if k' = k then (k', v) # d else (k', v') # dict_set k v d)"

text \<open>\<^verbatim>\<open>d.update(other)\<close>\<close>

fun dict_update :: "('k \<times> 'v) list \<Rightarrow> ('k \<times> 'v) list \<Rightarrow> ('k \<times> 'v) list" where
  "dict_update d [] = d"
| "dict_update d ((k, v) # other) = dict_update (dict_set k v d) other"

definition opt_str :: "string option \<Rightarrow> pyval" where
  "opt_str x = (case x of None \<Rightarrow> Scalar PNone | Some s \<Rightarrow> Scalar (PStr s))"

definition opt_int :: "int option \<Rightarrow> pyval" where
  "opt_int x = (case x of None \<Rightarrow> Scalar PNone | Some i \<Rightarrow> Scalar (PInt i))"

text \<open>Lines 50-60: \<^verbatim>\<open>option_dict\<close> as \<^verbatim>\<open>apply\<close> builds it.\<close>

definition apply_options :: "'d terraform \<Rightarrow> bool \<Rightarrow> kwargs \<Rightarrow> kwargs" where
  "apply_options slf no_color kw =
     (let d1 = dict_set ''state'' (opt_str (state slf)) [];
          d2 = dict_set ''target'' (PList (targets slf)) d1;
          d3 = dict_set ''var'' (PDict (variables slf)) d2;
          d4 = dict_set ''var_file'' (opt_str (var_file slf)) d3;
          d5 = dict_set ''parallelism'' (opt_int (parallelism slf)) d4;
          d6 = (if no_color then dict_set ''no_color'' (Scalar (PStr [])) d5 else d5);
          d7 = dict_set ''input'' (Scalar (PBool (input slf))) d6
      in dict_update d7 kw)"

text \<open>Lines 47-48 and 62: the positional arguments of \<^verbatim>\<open>apply\<close>.\<close>

definition apply_args :: "'d terraform \<Rightarrow> string option \<Rightarrow> string list" where
  "apply_args slf wd =
     (let wd' = (case wd of None \<Rightarrow> working_dir slf
                 | Some p \<Rightarrow> if p \<noteq> [] then Some p else working_dir slf)
      in case wd' of None \<Rightarrow> [] | Some p \<Rightarrow> if p \<noteq> [] then [p] else [])"

text \<open>
  \<^verbatim>\<open>Terraform.apply\<close>: returns nothing, or raises. It is named \<open>tf_apply\<close> because
  \<^theory_text>\<open>apply\<close> is a keyword, and \<^verbatim>\<open>Terraform.output\<close> is named \<open>tf_output\<close> alike.
  Line 64 passes \<^verbatim>\<open>option_dict\<close> as keyword arguments to \<^verbatim>\<open>self.cmd\<close>: a key that
  names a parameter of \<^verbatim>\<open>cmd\<close> already bound (\<^verbatim>\<open>cmd\<close>, bound to \<^verbatim>\<open>'apply'\<close>, or
  \<^verbatim>\<open>self\<close>) makes the call raise \<^verbatim>\<open>TypeError\<close> before \<^verbatim>\<open>cmd\<close> runs.
\<close>

definition tf_apply ::
  "('w, 'd, 'n) env \<Rightarrow> string option \<Rightarrow> bool \<Rightarrow> kwargs \<Rightarrow> ('w, 'd) machine \<Rightarrow>
   ((exn + unit) \<times> ('w, 'd) machine) option" where
  "tf_apply e wd no_color kw m =
     (let option_dict = apply_options (self m) no_color kw;
          args = apply_args (self m) wd
      in if ''cmd'' \<in> fst ` set option_dict \<or> ''self'' \<in> fst ` set option_dict
         then Some (Inl TypeError, m)
         else
           (case cmd e ''apply'' args option_dict m of
              None \<Rightarrow> None
            | Some (Inl x, m') \<Rightarrow> Some (Inl x, m')
            | Some (Inr (ret, out, err), m') \<Rightarrow>
                if ret \<noteq> 0 then Some (Inl (RuntimeError err), m') else Some (Inr (), m')))"

text \<open>\<^verbatim>\<open>Terraform.output\<close>: Python's \<^verbatim>\<open>None\<close> is \<open>JNull\<close>.\<close>

definition tf_output ::
  "('w, 'd, 'n) env \<Rightarrow> string \<Rightarrow> ('w, 'd) machine \<Rightarrow>
   ((exn + 'n json) \<times> ('w, 'd) machine) option" where
  "tf_output e name m =
     (case cmd e ''output'' [name] [(''json'', Scalar (PStr []))] m of
        None \<Rightarrow> None
      | Some (Inl x, m') \<Rightarrow> Some (Inl x, m')
      | Some (Inr (ret, out, err), m') \<Rightarrow>
          if ret \<noteq> 0 then Some (Inr JNull, m')
          else (case json_loads e (py_lstrip out) of
                  None \<Rightarrow> Some (Inl JSONDecodeError, m')
                | Some output_dict \<Rightarrow>
                    (case getitem output_dict (text_of ''value'') of
                       Inl x \<Rightarrow> Some (Inl x, m')
                     | Inr v \<Rightarrow> Some (Inr v, m'))))"

subsection \<open>A concrete environment\<close>

text \<open>
  An environment whose child process always exits with the same code and output,
  whose loader always answers \<open>doc\<close>, and a machine that has run nothing yet. They
  are the concrete inputs at which the theorems below are instantiated.
\<close>

definition fixed_env ::
  "int \<Rightarrow> byte list \<Rightarrow> byte list \<Rightarrow> 'd option \<Rightarrow> (unicode \<Rightarrow> 'n json option) \<Rightarrow>
   (unit, 'd, 'n) env" where
  "fixed_env ret out err doc loads =
     \<lparr> popen = (\<lambda>c w. Some ((ret, out, err), w)),
       load_file = (\<lambda>p w. doc),
       json_loads = loads \<rparr>"

definition fresh :: "'d terraform \<Rightarrow> (unit, 'd) machine" where
  "fresh slf = \<lparr> self = slf, world = (), trace = [] \<rparr>"

definition no_json :: "unicode \<Rightarrow> unit json option" where
  "no_json t = None"

text \<open>The bytes of an ASCII string, and a JSON parser that knows one document.\<close>

definition bytes_of :: "string \<Rightarrow> byte list" where
  "bytes_of s = map of_char s"

definition demo_loads :: "unicode \<Rightarrow> nat json option" where
  \<open>demo_loads t =
     (if t = text_of ''{"value": 7}'' then Some (JDict [(text_of ''value'', JNum 7)]) else None)\<close>

section \<open>Properties of the command encoder\<close>

subsection \<open>The loop and the library functions\<close>

lemma encode_options_concat: "encode_options cmds kw = cmds @ concat (map encode_option kw)"
  by (induction kw arbitrary: cmds) simp_all

lemma py_replace_map: "py_replace a b s = map (\<lambda>c. if c = a then b else c) s"
  by (induction s) simp_all

lemma option_name_map: "option_name k = map (\<lambda>c. if c = CHR ''_'' then CHR ''-'' else c) k"
proof (cases "CHR ''_'' \<in> set k")
  case True
  then show ?thesis by (simp add: option_name_def py_replace_map)
next
  case False
  then have "map (\<lambda>c. if c = CHR ''_'' then CHR ''-'' else c) k = map (\<lambda>c. c) k"
    by (intro map_cong) auto
  with False show ?thesis by (simp add: option_name_def)
qed

lemma generate_cmd_tokens_concat:
  "generate_cmd_tokens slf c args kw =
     terraform_bin_path slf # py_split c @ concat (map encode_option kw) @ args"
  by (simp add: generate_cmd_tokens_def encode_options_concat)

lemma py_split_plan: "py_split ''plan'' = [''plan'']"
  by (simp add: py_split_def char_isspace_def py_isspace_def)

lemma py_split_apply: "py_split ''apply'' = [''apply'']"
  by (simp add: py_split_def char_isspace_def py_isspace_def)

lemma py_split_output: "py_split ''output'' = [''output'']"
  by (simp add: py_split_def char_isspace_def py_isspace_def)

lemma concat_map_filter:
  "(\<And>x. x \<in> set xs \<Longrightarrow> \<not> P x \<Longrightarrow> f x = []) \<Longrightarrow>
   concat (map f xs) = concat (map f (filter P xs))"
  by (induction xs) auto

subsection \<open>What each kind of option value emits\<close>

text \<open>
  C1. The claim: an entry whose value is the boolean \<^verbatim>\<open>False\<close> is encoded as
  \<^verbatim>\<open>-<name>=false\<close>. The code does not do that: \<^verbatim>\<open>not v\<close> on line 117 holds for
  \<^verbatim>\<open>False\<close>, so the entry is skipped before lines 120-121 can render it, and
  encoding \<^verbatim>\<open>{"input": False}\<close> for the subcommand \<^verbatim>\<open>apply\<close> gives
  \<^verbatim>\<open>terraform apply\<close> with no \<^verbatim>\<open>-input=false\<close> token.
\<close>

theorem false_flag_dropped:
  "generate_cmd_string (init None None None None None None None :: unit terraform) ''apply'' []
     [(''input'', Scalar (PBool False))] = ''terraform apply''"
  by (simp add: generate_cmd_string_def generate_cmd_tokens_concat init_def py_split_apply)

text \<open>
  C5. A list-valued option, wherever it stands in the mapping, emits one token
  \<^verbatim>\<open>-<name>=<element>\<close> per element, in list order, and an empty list emits
  nothing; a map-valued option emits one token \<^verbatim>\<open>-<name>='<key>=<value>'\<close> per
  entry. \<^verbatim>\<open>{"target": ["a","b"]}\<close> gives \<^verbatim>\<open>-target=a -target=b\<close> and
  \<^verbatim>\<open>{"var": {"x":"1"}}\<close> gives \<^verbatim>\<open>-var='x=1'\<close>.
\<close>

theorem list_and_map_options:
  "generate_cmd_tokens slf c args (kw1 @ (k, PList vs) # kw2) =
     terraform_bin_path slf # py_split c @ concat (map encode_option kw1) @
     map (\<lambda>v. ''-'' @ option_name k @ ''='' @ py_format v) vs @
     concat (map encode_option kw2) @ args
   \<and> generate_cmd_tokens slf c args (kw1 @ (k, PDict d) # kw2) =
     terraform_bin_path slf # py_split c @ concat (map encode_option kw1) @
     map (\<lambda>(a, b). ''-'' @ option_name k @ ''='' @ [CHR 0x27] @ py_format a @ ''='' @
                   py_format b @ [CHR 0x27]) d @
     concat (map encode_option kw2) @ args
   \<and> generate_cmd_tokens slf c [] [(''target'', PList [PStr ''a'', PStr ''b''])] =
     terraform_bin_path slf # py_split c @ [''-target=a'', ''-target=b'']
   \<and> generate_cmd_tokens slf c [] [(''target'', PList [])] = terraform_bin_path slf # py_split c
   \<and> generate_cmd_tokens slf c [] [(''var'', PDict [(PStr ''x'', PStr ''1'')])] =
     terraform_bin_path slf # py_split c @ [''-var='x=1'' @ [CHR 0x27]]"
  by (simp add: generate_cmd_tokens_concat option_name_def)

text \<open>
  C6. An option whose value is the empty string, wherever it stands in the mapping,
  emits the bare token \<^verbatim>\<open>-<name>\<close>, the name with every \<^verbatim>\<open>_\<close> replaced by \<^verbatim>\<open>-\<close>;
  \<^verbatim>\<open>{"no_color": ""}\<close> gives the single token \<^verbatim>\<open>-no-color\<close>.
\<close>

theorem empty_string_bare_flag:
  "generate_cmd_tokens slf c args (kw1 @ (k, Scalar (PStr [])) # kw2) =
     terraform_bin_path slf # py_split c @ concat (map encode_option kw1) @
     [''-'' @ map (\<lambda>x. if x = CHR ''_'' then CHR ''-'' else x) k] @
     concat (map encode_option kw2) @ args
   \<and> generate_cmd_tokens slf c [] [(''no_color'', Scalar (PStr []))] =
     terraform_bin_path slf # py_split c @ [''-no-color'']"
  by (simp add: generate_cmd_tokens_concat option_name_map)

text \<open>
  C7. When every value of the options mapping is \<^verbatim>\<open>None\<close>, the tokens are the
  binary, the subcommand words and the positional arguments, nothing else; and in any
  mapping the entries whose value is \<^verbatim>\<open>None\<close> contribute nothing: the tokens are
  those of the mapping without them.
\<close>

theorem absent_values_emit_nothing:
  "(list_all (\<lambda>kv. snd kv = Scalar PNone) kw \<longrightarrow>
      generate_cmd_tokens slf c args kw = terraform_bin_path slf # py_split c @ args)
   \<and> generate_cmd_tokens slf c args kw =
      generate_cmd_tokens slf c args (filter (\<lambda>kv. snd kv \<noteq> Scalar PNone) kw)"
proof -
  have drop: "concat (map encode_option kw) =
      concat (map encode_option (filter (\<lambda>kv. snd kv \<noteq> Scalar PNone) kw))"
    by (rule concat_map_filter) auto
  have "list_all (\<lambda>kv. snd kv = Scalar PNone) kw \<Longrightarrow> concat (map encode_option kw) = []"
    by (induction kw) auto
  with drop show ?thesis
    by (simp add: generate_cmd_tokens_concat)
qed

theorem absent_values_emit_nothing_witness:
  "list_all (\<lambda>kv. snd kv = Scalar PNone) [(''state'', Scalar PNone), (''var_file'', Scalar PNone)]
   \<and> generate_cmd_string (init None None None None None None None :: unit terraform) ''apply''
       [''dir''] [(''state'', Scalar PNone), (''var_file'', Scalar PNone)] = ''terraform apply dir''"
  using absent_values_emit_nothing [of "[(''state'', Scalar PNone), (''var_file'', Scalar PNone)]"
      "init None None None None None None None :: unit terraform" "''apply''" "[''dir'']"]
  by (simp add: generate_cmd_string_def init_def py_split_apply)

text \<open>
  C10. Only the option name has its underscores replaced. For a map-valued option
  with string keys and values, each token is \<^verbatim>\<open>-<name>='<key>=<value>'\<close> with the key
  and the value unchanged; \<^verbatim>\<open>{"my_var": {"a_b": "c_d"}}\<close> gives \<^verbatim>\<open>-my-var='a_b=c_d'\<close>.
\<close>

theorem map_entries_verbatim:
  "generate_cmd_tokens slf c args (kw1 @ (k, PDict (map (\<lambda>(a, b). (PStr a, PStr b)) d)) # kw2) =
     terraform_bin_path slf # py_split c @ concat (map encode_option kw1) @
     map (\<lambda>(a, b). ''-'' @ map (\<lambda>x. if x = CHR ''_'' then CHR ''-'' else x) k @ ''='' @
                   [CHR 0x27] @ a @ ''='' @ b @ [CHR 0x27]) d @
     concat (map encode_option kw2) @ args
   \<and> generate_cmd_tokens slf c [] [(''my_var'', PDict [(PStr ''a_b'', PStr ''c_d'')])] =
     terraform_bin_path slf # py_split c @ [''-my-var='a_b=c_d'' @ [CHR 0x27]]"
  by (simp add: generate_cmd_tokens_concat option_name_map comp_def case_prod_unfold)

section \<open>Properties of \<^verbatim>\<open>apply\<close>'s options\<close>

subsection \<open>Dictionaries and the shape of a token\<close>

lemma set_dict_set: "set (dict_set k v d) \<subseteq> insert (k, v) (set d)"
  by (induction d) (auto split: if_splits)

lemma dict_set_other: "k' \<noteq> k \<Longrightarrow> (k', x) \<in> set (dict_set k v d) \<longleftrightarrow> (k', x) \<in> set d"
  by (induction d) (auto split: if_splits)

lemma dict_update_other:
  "k \<notin> fst ` set kw \<Longrightarrow> (k, x) \<in> set (dict_update d kw) \<longleftrightarrow> (k, x) \<in> set d"
  by (induction d kw rule: dict_update.induct) (auto simp: dict_set_other)

lemma token_shape:
  "t \<in> set (encode_option (k, v)) \<Longrightarrow>
     t = ''-'' @ option_name k \<or> (\<exists>r. t = ''-'' @ option_name k @ ''='' @ r)"
  by (cases v) (auto split: if_splits simp: Let_def)

lemma option_name_input: "option_name k = ''input'' \<Longrightarrow> k = ''input''"
  by (auto simp: option_name_def py_replace_map map_eq_Cons_conv split: if_splits)

lemma option_name_eq_sign: "CHR ''='' \<in> set (option_name k) \<longleftrightarrow> CHR ''='' \<in> set k"
  by (auto simp: option_name_map)

lemma prefix_input_eq:
  assumes "prefix ''input='' (n @ ''='' @ r)" and "CHR ''='' \<notin> set n"
  shows "n = ''input''"
  using assms
  by (auto simp: prefix_def append_eq_Cons_conv Cons_eq_append_conv append_eq_append_conv2)

lemma apply_options_base:
  "apply_options slf nc kw =
     dict_update
       ([(''state'', opt_str (state slf)), (''target'', PList (targets slf)),
         (''var'', PDict (variables slf)), (''var_file'', opt_str (var_file slf)),
         (''parallelism'', opt_int (parallelism slf))] @
        (if nc then [(''no_color'', Scalar (PStr []))] else []) @
        [(''input'', Scalar (PBool (input slf)))]) kw"
  by (cases nc) (simp_all add: apply_options_def)

lemma apply_options_entries:
  assumes "(k, v) \<in> set (apply_options slf nc kw)" and "k \<notin> fst ` set kw"
  shows "(k, v) \<in> {(''state'', opt_str (state slf)), (''target'', PList (targets slf)),
            (''var'', PDict (variables slf)), (''var_file'', opt_str (var_file slf)),
            (''parallelism'', opt_int (parallelism slf)), (''no_color'', Scalar (PStr [])),
            (''input'', Scalar (PBool (input slf)))}"
  using assms unfolding apply_options_base
  by (cases nc) (simp_all add: dict_update_other del: insert_iff, auto)

lemma apply_options_input:
  "''input'' \<notin> fst ` set kw \<Longrightarrow> (''input'', Scalar (PBool (input slf))) \<in> set (apply_options slf nc kw)"
  by (simp add: apply_options_base dict_update_other)

lemma bare_not_input:
  assumes "n \<noteq> ''input''" and "CHR ''='' \<notin> set n"
  shows "''-'' @ n \<noteq> ''-input'' \<and> \<not> prefix ''-input='' (''-'' @ n)"
proof -
  have "\<not> prefix ''input='' n"
  proof
    assume "prefix ''input='' n"
    then have "set ''input='' \<subseteq> set n" by (rule set_mono_prefix)
    then have "CHR ''='' \<in> set n" by simp
    with assms(2) show False by simp
  qed
  with assms(1) show ?thesis by simp
qed

lemma valued_not_input:
  assumes "n \<noteq> ''input''" and "CHR ''='' \<notin> set n"
  shows "''-'' @ n @ ''='' @ r \<noteq> ''-input'' \<and> \<not> prefix ''-input='' (''-'' @ n @ ''='' @ r)"
proof -
  have "n @ ''='' @ r \<noteq> ''input''"
  proof
    assume eq: "n @ ''='' @ r = ''input''"
    have "CHR ''='' \<in> set (n @ ''='' @ r)" by simp
    then have "CHR ''='' \<in> set ''input''" unfolding eq .
    then show False by simp
  qed
  moreover have "\<not> prefix ''input='' (n @ ''='' @ r)"
    using prefix_input_eq [of n r] assms by auto
  ultimately show ?thesis by simp
qed

lemma no_input_token:
  assumes "k \<noteq> ''input''" and "CHR ''='' \<notin> set k" and "t \<in> set (encode_option (k, v))"
  shows "t \<noteq> ''-input'' \<and> \<not> prefix ''-input='' t"
proof -
  have n1: "option_name k \<noteq> ''input''" using assms(1) option_name_input [of k] by auto
  have n2: "CHR ''='' \<notin> set (option_name k)" using assms(2) by (simp add: option_name_eq_sign)
  from token_shape [OF assms(3)] show ?thesis
  proof
    assume "t = ''-'' @ option_name k"
    then show ?thesis using bare_not_input [OF n1 n2] by simp
  next
    assume "\<exists>r. t = ''-'' @ option_name k @ ''='' @ r"
    then obtain r where "t = ''-'' @ option_name k @ ''='' @ r" by blast
    then show ?thesis using valued_not_input [OF n1 n2, of r] by simp
  qed
qed

lemma dict_set_keys: "fst ` set (dict_set k v d) = insert k (fst ` set d)"
proof (induction d)
  case Nil
  show ?case by simp
next
  case (Cons p d)
  obtain a b where p: "p = (a, b)" by (cases p)
  show ?case
  proof (cases "a = k")
    case True
    with p show ?thesis by simp
  next
    case False
    with p Cons.IH show ?thesis by (simp add: insert_commute)
  qed
qed

lemma dict_update_keys: "fst ` set (dict_update d kw) = fst ` set d \<union> fst ` set kw"
  by (induction d kw rule: dict_update.induct) (simp_all add: dict_set_keys)

lemma apply_options_key_cmd:
  "''cmd'' \<in> fst ` set (apply_options slf nc kw) \<longleftrightarrow> ''cmd'' \<in> fst ` set kw"
  by (cases nc) (simp_all add: apply_options_base dict_update_keys)

lemma apply_options_key_self:
  "''self'' \<in> fst ` set (apply_options slf nc kw) \<longleftrightarrow> ''self'' \<in> fst ` set kw"
  by (cases nc) (simp_all add: apply_options_base dict_update_keys)

subsection \<open>The \<^verbatim>\<open>input\<close> option of \<^verbatim>\<open>apply\<close>\<close>

text \<open>
  C9. On a freshly constructed object, when the caller's overrides have no key
  \<^verbatim>\<open>input\<close>, the mapping \<^verbatim>\<open>apply\<close> hands to the encoder holds the entry
  \<^verbatim>\<open>input: False\<close>, and that entry emits nothing: the tokens are the binary,
  \<^verbatim>\<open>apply\<close>, the tokens of the other entries and the positional arguments. When,
  moreover, no override key contains \<^verbatim>\<open>=\<close>, no option token is \<^verbatim>\<open>-input\<close> or
  starts with \<^verbatim>\<open>-input=\<close>.
\<close>

theorem apply_omits_input:
  assumes "slf = init wd0 tg st vs par vf bin"
      and "''input'' \<notin> fst ` set kw"
  shows "generate_cmd_tokens slf ''apply'' (apply_args slf wd) (apply_options slf nc kw) =
           terraform_bin_path slf # ''apply'' #
           concat (map encode_option
             (filter (\<lambda>kv. fst kv \<noteq> ''input'') (apply_options slf nc kw))) @
           apply_args slf wd
         \<and> (''input'', Scalar (PBool False)) \<in> set (apply_options slf nc kw)
         \<and> ((\<forall>k \<in> fst ` set kw. CHR ''='' \<notin> set k) \<longrightarrow>
            (\<forall>t \<in> set (concat (map encode_option (apply_options slf nc kw))).
               t \<noteq> ''-input'' \<and> \<not> prefix ''-input='' t))"
proof -
  have inp: "input slf = False" using assms(1) by (simp add: init_def)
  have entry: "v = Scalar (PBool False)" if "(''input'', v) \<in> set (apply_options slf nc kw)" for v
    using apply_options_entries [OF that assms(2)] inp by simp
  have none: "encode_option kv = []"
    if "kv \<in> set (apply_options slf nc kw)" and "\<not> fst kv \<noteq> ''input''" for kv
  proof -
    obtain k v where kv: "kv = (k, v)" by (cases kv)
    with that have "k = ''input''" by simp
    with that(1) kv have "v = Scalar (PBool False)" using entry by simp
    with kv show ?thesis by simp
  qed
  have A: "concat (map encode_option (apply_options slf nc kw)) =
      concat (map encode_option (filter (\<lambda>kv. fst kv \<noteq> ''input'') (apply_options slf nc kw)))"
    by (rule concat_map_filter) (rule none)
  have B: "(''input'', Scalar (PBool False)) \<in> set (apply_options slf nc kw)"
    using apply_options_input [OF assms(2), of slf nc] inp by simp
  have C: "t \<noteq> ''-input'' \<and> \<not> prefix ''-input='' t"
    if keys: "\<forall>k \<in> fst ` set kw. CHR ''='' \<notin> set k"
      and t: "t \<in> set (concat (map encode_option (apply_options slf nc kw)))" for t
  proof -
    from t obtain kv where kv: "kv \<in> set (apply_options slf nc kw)" "t \<in> set (encode_option kv)"
      by auto
    obtain k v where "kv = (k, v)" by (cases kv)
    with kv have mem: "(k, v) \<in> set (apply_options slf nc kw)"
      and tok: "t \<in> set (encode_option (k, v))" by simp_all
    show ?thesis
    proof (cases "k = ''input''")
      case True
      with mem have "v = Scalar (PBool False)" using entry by simp
      with tok show ?thesis by simp
    next
      case False
      have "CHR ''='' \<notin> set k"
      proof (cases "k \<in> fst ` set kw")
        case True
        with keys show ?thesis by auto
      next
        case False
        from apply_options_entries [OF mem False] show ?thesis by auto
      qed
      with False tok show ?thesis using no_input_token [of k t v] by simp
    qed
  qed
  from A show ?thesis using B C
    by (simp add: generate_cmd_tokens_concat py_split_apply)
qed

theorem apply_omits_input_witness:
  "''input'' \<notin> fst ` set [(''refresh'', Scalar (PBool True))]
   \<and> generate_cmd_string (init None None None (Some [(PStr ''a'', PStr ''b'')]) None None None :: unit terraform)
       ''apply'' (apply_args (init None None None (Some [(PStr ''a'', PStr ''b'')]) None None None :: unit terraform) None)
       (apply_options (init None None None (Some [(PStr ''a'', PStr ''b'')]) None None None :: unit terraform)
          True [(''refresh'', Scalar (PBool True))]) =
     ''terraform apply -var='a=b' -no-color -refresh=true''"
  using apply_omits_input [of "init None None None (Some [(PStr ''a'', PStr ''b'')]) None None None :: unit terraform"
      None None None "Some [(PStr ''a'', PStr ''b'')]" None None None
      "[(''refresh'', Scalar (PBool True))]" None True]
  by (simp add: generate_cmd_string_def init_def apply_args_def apply_options_def opt_str_def opt_int_def option_name_def)

section \<open>Properties of the process runner\<close>

subsection \<open>The three outcomes of \<^verbatim>\<open>cmd\<close>\<close>

lemma cmd_nonzero:
  assumes "popen e (generate_cmd_string (self m) c args kw) (world m) = Some ((ret, out, err), w)"
      and "ret \<noteq> 0"
  shows "cmd e c args kw m =
     Some (case utf8_decode out of
             None \<Rightarrow> Inl UnicodeDecodeError
           | Some out' \<Rightarrow>
               (case utf8_decode err of
                  None \<Rightarrow> Inl UnicodeDecodeError
                | Some err' \<Rightarrow> Inr (ret, out', err')),
           m\<lparr>trace := trace m @ [Spawn (generate_cmd_string (self m) c args kw)], world := w\<rparr>)"
  using assms by (simp add: cmd_def Let_def split: option.splits)

lemma cmd_zero:
  assumes "popen e (generate_cmd_string (self m) c args kw) (world m) = Some ((0, out, err), w)"
  shows "cmd e c args kw m =
     (case load_file e (state_file_path (self m) None) w of
        None \<Rightarrow>
          Some (Inl StateLoadError,
                m\<lparr>trace := trace m @ [Spawn (generate_cmd_string (self m) c args kw),
                                        Load (state_file_path (self m) None)],
                  world := w\<rparr>)
      | Some d \<Rightarrow>
          Some (case utf8_decode out of
                  None \<Rightarrow> Inl UnicodeDecodeError
                | Some out' \<Rightarrow>
                    (case utf8_decode err of
                       None \<Rightarrow> Inl UnicodeDecodeError
                     | Some err' \<Rightarrow> Inr (0, out', err')),
                m\<lparr>trace := trace m @ [Spawn (generate_cmd_string (self m) c args kw),
                                        Load (state_file_path (self m) None)],
                  world := w,
                  self := (self m)\<lparr>tfstate := Some d\<rparr>\<rparr>))"
  using assms by (simp add: cmd_def read_state_file_def Let_def split: option.splits)

lemma cmd_hangs:
  "popen e (generate_cmd_string (self m) c args kw) (world m) = None \<Longrightarrow> cmd e c args kw m = None"
  by (simp add: cmd_def Let_def)

lemma cmd_trace:
  assumes "cmd e c args kw m = Some (r, m')"
  shows "prefix (trace m @ [Spawn (generate_cmd_string (self m) c args kw)]) (trace m')"
proof (cases "popen e (generate_cmd_string (self m) c args kw) (world m)")
  case None
  with assms show ?thesis by (simp add: cmd_hangs)
next
  case (Some a)
  obtain ret out err w where a: "a = ((ret, out, err), w)" by (cases a) auto
  show ?thesis
  proof (cases "ret = 0")
    case True
    with Some a assms show ?thesis
      by (auto simp: cmd_zero split: option.splits)
  next
    case False
    with Some a assms show ?thesis
      by (auto simp: cmd_nonzero)
  qed
qed

subsection \<open>\<^verbatim>\<open>cmd\<close> and the instance's variables\<close>

text \<open>
  C2, as the code has it. For an object constructed with \<^verbatim>\<open>variables={"a":"b"}\<close>,
  \<^verbatim>\<open>cmd("plan")\<close> with no positional arguments and no options encodes and spawns
  \<^verbatim>\<open><binary> plan\<close>: \<^verbatim>\<open>cmd\<close> hands only its own keyword arguments to the encoder and
  never reads \<^verbatim>\<open>self.variables\<close> (only \<^verbatim>\<open>apply\<close> does). When the variables are passed
  as the option \<^verbatim>\<open>var\<close>, the string is \<^verbatim>\<open><binary> plan -var='a=b'\<close>. In every case the
  tokens are the binary, the subcommand words, the option tokens and the positional
  arguments, in this order.
\<close>

theorem raw_plan_command:
  assumes "self m = init wd tg st (Some [(PStr ''a'', PStr ''b'')]) par vf bin"
  shows "generate_cmd_string (self m) ''plan'' [] [] = terraform_bin_path (self m) @ '' plan''
       \<and> generate_cmd_string (self m) ''plan'' [] [(''var'', PDict (variables (self m)))] =
           terraform_bin_path (self m) @ '' plan -var='a=b'' @ [CHR 0x27]
       \<and> generate_cmd_tokens (self m) c args kw =
           terraform_bin_path (self m) # py_split c @ concat (map encode_option kw) @ args
       \<and> (\<forall>r m'. cmd e ''plan'' [] [] m = Some (r, m') \<longrightarrow>
            prefix (trace m @ [Spawn (terraform_bin_path (self m) @ '' plan'')]) (trace m'))"
proof -
  have vars: "variables (self m) = [(PStr ''a'', PStr ''b'')]"
    using assms by (simp add: init_def)
  have plain: "generate_cmd_string (self m) ''plan'' [] [] = terraform_bin_path (self m) @ '' plan''"
    by (simp add: generate_cmd_string_def generate_cmd_tokens_concat py_split_plan)
  have "prefix (trace m @ [Spawn (terraform_bin_path (self m) @ '' plan'')]) (trace m')"
    if "cmd e ''plan'' [] [] m = Some (r, m')" for r m'
    using cmd_trace [OF that] plain by simp
  with vars plain show ?thesis
    by (simp add: generate_cmd_string_def generate_cmd_tokens_concat py_split_plan option_name_def)
qed

theorem raw_plan_command_witness:
  "self (fresh (init None None None (Some [(PStr ''a'', PStr ''b'')]) None None None :: unit terraform)) =
     init None None None (Some [(PStr ''a'', PStr ''b'')]) None None None
   \<and> generate_cmd_string (init None None None (Some [(PStr ''a'', PStr ''b'')]) None None None :: unit terraform)
       ''plan'' [] [] = ''terraform plan''
   \<and> generate_cmd_string (init None None None (Some [(PStr ''a'', PStr ''b'')]) None None None :: unit terraform)
       ''plan'' [] [(''var'', PDict [(PStr ''a'', PStr ''b'')])] = ''terraform plan -var='a=b'' @ [CHR 0x27]"
proof -
  have h: "self (fresh (init None None None (Some [(PStr ''a'', PStr ''b'')]) None None None :: unit terraform)) =
     init None None None (Some [(PStr ''a'', PStr ''b'')]) None None None"
    by (simp add: fresh_def)
  show ?thesis
    using h raw_plan_command [OF h, where c = "''plan''" and args = "[]" and kw = "[]"
        and e = "fixed_env 0 [] [] (Some ()) no_json"]
    by (simp add: fresh_def init_def)
qed

text \<open>
  C2 as stated fails: on the object constructed with \<^verbatim>\<open>variables={"a":"b"}\<close>,
  \<^verbatim>\<open>cmd("plan")\<close> spawns \<^verbatim>\<open>terraform plan\<close>, which does not end in
  \<^verbatim>\<open>plan -var='a=b'\<close>.
\<close>

theorem cmd_plan_counterexample:
  "cmd (fixed_env 0 [] [] (Some ()) no_json) ''plan'' [] []
       (fresh (init None None None (Some [(PStr ''a'', PStr ''b'')]) None None None)) =
     Some (Inr (0, [], []),
           \<lparr>self = (init None None None (Some [(PStr ''a'', PStr ''b'')]) None None None)\<lparr>tfstate := Some ()\<rparr>,
            world = (), trace = [Spawn ''terraform plan'', Load ''terraform.tfstate'']\<rparr>)
   \<and> \<not> suffix (''plan -var='a=b'' @ [CHR 0x27]) ''terraform plan''"
  by (simp add: cmd_def fixed_env_def fresh_def generate_cmd_string_def generate_cmd_tokens_concat
      init_def py_split_plan utf8_decode_def read_state_file_def state_file_path_def suffix_def
      append_eq_Cons_conv Cons_eq_append_conv)

subsection \<open>State reload\<close>

text \<open>
  C3, as the code has it. When the child process exits with code 0, \<^verbatim>\<open>cmd\<close> makes
  exactly one attempt to load the state file, and the loaded document replaces the
  snapshot when the loader succeeds (its error is raised, and the object is unchanged,
  when it fails). When the child exits with another code, no load is attempted and the
  object, so its snapshot, is unchanged; the exit code and the decoded stderr are
  returned when both captured streams are valid UTF-8, and \<^verbatim>\<open>UnicodeDecodeError\<close> is
  raised when one is not.
\<close>

theorem cmd_reload_policy:
  assumes "popen e (generate_cmd_string (self m) c args kw) (world m) = Some ((ret, out, err), w)"
  shows "\<exists>r m'. cmd e c args kw m = Some (r, m') \<and>
      (if ret = 0
       then reloads m' = reloads m + 1 \<and>
            trace m' = trace m @ [Spawn (generate_cmd_string (self m) c args kw),
                                  Load (state_file_path (self m) None)] \<and>
            (case load_file e (state_file_path (self m) None) w of
               Some d \<Rightarrow> tfstate (self m') = Some d
             | None \<Rightarrow> r = Inl StateLoadError \<and> self m' = self m)
       else reloads m' = reloads m \<and>
            trace m' = trace m @ [Spawn (generate_cmd_string (self m) c args kw)] \<and>
            self m' = self m \<and>
            (case utf8_decode out of
               None \<Rightarrow> r = Inl UnicodeDecodeError
             | Some out' \<Rightarrow>
                 (case utf8_decode err of
                    None \<Rightarrow> r = Inl UnicodeDecodeError
                  | Some err' \<Rightarrow> r = Inr (ret, out', err'))))"
proof (cases "ret = 0")
  case True
  with assms show ?thesis
    by (simp add: cmd_zero reloads_def split: option.splits)
next
  case False
  with assms show ?thesis
    by (simp add: cmd_nonzero reloads_def split: option.splits)
qed

theorem cmd_reload_policy_witness:
  "cmd (fixed_env 1 [] [0x62, 0x6F, 0x6F, 0x6D] (Some ()) no_json) ''plan'' [] []
       (fresh (init None None None None None None None)) =
     Some (Inr (1, [], [98, 111, 111, 109]),
           \<lparr>self = init None None None None None None None, world = (),
            trace = [Spawn ''terraform plan'']\<rparr>)
   \<and> cmd (fixed_env 0 [] [] (Some ()) no_json) ''plan'' [] []
       (fresh (init None None None None None None None)) =
     Some (Inr (0, [], []),
           \<lparr>self = (init None None None None None None None)\<lparr>tfstate := Some ()\<rparr>, world = (),
            trace = [Spawn ''terraform plan'', Load ''terraform.tfstate'']\<rparr>)"
  using cmd_reload_policy [of "fixed_env 1 [] [0x62, 0x6F, 0x6F, 0x6D] (Some ()) no_json"
        "fresh (init None None None None None None None)" "''plan''" "[]" "[]" 1 "[]"
        "[0x62, 0x6F, 0x6F, 0x6D]" "()"]
      cmd_reload_policy [of "fixed_env 0 [] [] (Some ()) no_json"
        "fresh (init None None None None None None None)" "''plan''" "[]" "[]" 0 "[]" "[]" "()"]
  by (simp add: cmd_def fixed_env_def fresh_def generate_cmd_string_def generate_cmd_tokens_concat
      init_def py_split_plan utf8_decode_def read_state_file_def state_file_path_def)

text \<open>
  C3 as stated fails where it says that the exit code and the captured stderr are
  returned for every non-zero exit: a child that exits with code 1 and writes the
  byte \<^verbatim>\<open>0xFF\<close> to stderr makes \<^verbatim>\<open>cmd\<close> raise \<^verbatim>\<open>UnicodeDecodeError\<close>.
\<close>

theorem cmd_undecodable_stderr_counterexample:
  "popen (fixed_env 1 [] [0xFF] (Some ()) no_json) ''terraform plan'' () = Some ((1, [], [0xFF]), ())
   \<and> cmd (fixed_env 1 [] [0xFF] (Some ()) no_json) ''plan'' [] []
       (fresh (init None None None None None None None)) =
     Some (Inl UnicodeDecodeError,
           \<lparr>self = init None None None None None None None, world = (),
            trace = [Spawn ''terraform plan'']\<rparr>)"
  by (simp add: cmd_def fixed_env_def fresh_def generate_cmd_string_def generate_cmd_tokens_concat
      init_def py_split_plan utf8_decode_def)

subsection \<open>\<^verbatim>\<open>apply\<close>\<close>

text \<open>
  C4, as the code has it. \<^verbatim>\<open>apply\<close> with an override key \<^verbatim>\<open>cmd\<close> raises
  \<^verbatim>\<open>TypeError\<close> and runs nothing. Otherwise, for a child process that exits: when it
  exits with a non-zero code and both captured streams are valid UTF-8, \<^verbatim>\<open>apply\<close>
  raises \<^verbatim>\<open>RuntimeError\<close> whose message is the decoded stderr, with no state reload;
  when it exits with code zero, the state file loads and both streams are valid UTF-8,
  \<^verbatim>\<open>apply\<close> returns without raising. In the remaining cases the error of the runner
  is raised: the loader's error after a zero exit whose state load fails, and
  \<^verbatim>\<open>UnicodeDecodeError\<close> when a stream is not valid UTF-8.
\<close>

theorem apply_outcome:
  "(''cmd'' \<in> fst ` set kw \<or> ''self'' \<in> fst ` set kw \<longrightarrow>
      tf_apply e wd nc kw m = Some (Inl TypeError, m))
   \<and> (''cmd'' \<notin> fst ` set kw \<and> ''self'' \<notin> fst ` set kw \<and>
       popen e (generate_cmd_string (self m) ''apply'' (apply_args (self m) wd)
                 (apply_options (self m) nc kw)) (world m) = Some ((ret, ob, eb), w) \<longrightarrow>
       (\<exists>r m'. tf_apply e wd nc kw m = Some (r, m') \<and>
          (if ret \<noteq> 0
           then reloads m' = reloads m \<and> self m' = self m \<and>
                (case utf8_decode ob of
                   None \<Rightarrow> r = Inl UnicodeDecodeError
                 | Some out \<Rightarrow>
                     (case utf8_decode eb of
                        None \<Rightarrow> r = Inl UnicodeDecodeError
                      | Some err \<Rightarrow> r = Inl (RuntimeError err)))
           else reloads m' = reloads m + 1 \<and>
                (case load_file e (state_file_path (self m) None) w of
                   None \<Rightarrow> r = Inl StateLoadError
                 | Some d \<Rightarrow>
                     (case utf8_decode ob of
                        None \<Rightarrow> r = Inl UnicodeDecodeError
                      | Some out \<Rightarrow>
                          (case utf8_decode eb of
                             None \<Rightarrow> r = Inl UnicodeDecodeError
                           | Some err \<Rightarrow> r = Inr ()))))))"
proof -
  have bound: "tf_apply e wd nc kw m = Some (Inl TypeError, m)"
    if "''cmd'' \<in> fst ` set kw \<or> ''self'' \<in> fst ` set kw"
    using that
    by (simp add: tf_apply_def Let_def apply_options_key_cmd apply_options_key_self)
  have run: "\<exists>r m'. tf_apply e wd nc kw m = Some (r, m') \<and>
          (if ret \<noteq> 0
           then reloads m' = reloads m \<and> self m' = self m \<and>
                (case utf8_decode ob of
                   None \<Rightarrow> r = Inl UnicodeDecodeError
                 | Some out \<Rightarrow>
                     (case utf8_decode eb of
                        None \<Rightarrow> r = Inl UnicodeDecodeError
                      | Some err \<Rightarrow> r = Inl (RuntimeError err)))
           else reloads m' = reloads m + 1 \<and>
                (case load_file e (state_file_path (self m) None) w of
                   None \<Rightarrow> r = Inl StateLoadError
                 | Some d \<Rightarrow>
                     (case utf8_decode ob of
                        None \<Rightarrow> r = Inl UnicodeDecodeError
                      | Some out \<Rightarrow>
                          (case utf8_decode eb of
                             None \<Rightarrow> r = Inl UnicodeDecodeError
                           | Some err \<Rightarrow> r = Inr ()))))"
    if keys: "''cmd'' \<notin> fst ` set kw" "''self'' \<notin> fst ` set kw"
      and child: "popen e (generate_cmd_string (self m) ''apply'' (apply_args (self m) wd)
                 (apply_options (self m) nc kw)) (world m) = Some ((ret, ob, eb), w)"
  proof (cases "ret = 0")
    case True
    with keys child show ?thesis
      by (simp add: tf_apply_def Let_def apply_options_key_cmd apply_options_key_self cmd_zero
          reloads_def split: option.splits)
  next
    case False
    with keys child show ?thesis
      by (simp add: tf_apply_def Let_def apply_options_key_cmd apply_options_key_self cmd_nonzero
          reloads_def split: option.splits)
  qed
  from bound run show ?thesis by blast
qed

theorem apply_outcome_witness:
  "tf_apply (fixed_env 1 [] (bytes_of ''boom'') (Some ()) no_json) None True []
       (fresh (init None None None None None None None)) =
     Some (Inl (RuntimeError (text_of ''boom'')),
           \<lparr>self = init None None None None None None None, world = (),
            trace = [Spawn ''terraform apply -no-color'']\<rparr>)
   \<and> tf_apply (fixed_env 0 [] [] (Some ()) no_json) None True []
       (fresh (init None None None None None None None)) =
     Some (Inr (),
           \<lparr>self = (init None None None None None None None)\<lparr>tfstate := Some ()\<rparr>, world = (),
            trace = [Spawn ''terraform apply -no-color'', Load ''terraform.tfstate'']\<rparr>)
   \<and> tf_apply (fixed_env 0 [] [] (Some ()) no_json) None True [(''cmd'', Scalar (PStr ''x''))]
       (fresh (init None None None None None None None)) =
     Some (Inl TypeError, fresh (init None None None None None None None))"
  using apply_outcome [of "[]" "fixed_env 1 [] (bytes_of ''boom'') (Some ()) no_json" None True
        "fresh (init None None None None None None None)" 1 "[]" "bytes_of ''boom''" "()"]
      apply_outcome [of "[]" "fixed_env 0 [] [] (Some ()) no_json" None True
        "fresh (init None None None None None None None)" 0 "[]" "[]" "()"]
      apply_outcome [of "[(''cmd'', Scalar (PStr ''x''))]" "fixed_env 0 [] [] (Some ()) no_json"
        None True "fresh (init None None None None None None None)" 0 "[]" "[]" "()"]
  by (simp add: tf_apply_def cmd_def fixed_env_def fresh_def generate_cmd_string_def
      generate_cmd_tokens_concat init_def py_split_apply utf8_decode_def read_state_file_def
      state_file_path_def apply_args_def apply_options_def opt_str_def opt_int_def option_name_def
      bytes_of_def text_of_def)

text \<open>
  C4 as stated fails on both halves. A child that exits with code 0 while the state
  file cannot be loaded makes \<^verbatim>\<open>apply\<close> raise the loader's error, though the exit
  code is zero; a child that exits with code 1 and writes the byte \<^verbatim>\<open>0xFF\<close> to stderr
  makes \<^verbatim>\<open>apply\<close> raise \<^verbatim>\<open>UnicodeDecodeError\<close>, which carries no stderr text.
\<close>

theorem apply_load_failure_counterexample:
  "tf_apply (fixed_env 0 [] [] None no_json) None True []
       (fresh (init None None None None None None None)) =
     Some (Inl StateLoadError,
           \<lparr>self = init None None None None None None None, world = (),
            trace = [Spawn ''terraform apply -no-color'', Load ''terraform.tfstate'']\<rparr>)
   \<and> tf_apply (fixed_env 1 [] [0xFF] (Some ()) no_json) None True []
       (fresh (init None None None None None None None)) =
     Some (Inl UnicodeDecodeError,
           \<lparr>self = init None None None None None None None, world = (),
            trace = [Spawn ''terraform apply -no-color'']\<rparr>)"
  by (simp add: tf_apply_def cmd_def fixed_env_def fresh_def generate_cmd_string_def
      generate_cmd_tokens_concat init_def py_split_apply utf8_decode_def read_state_file_def
      state_file_path_def apply_args_def apply_options_def opt_str_def opt_int_def option_name_def)

subsection \<open>\<^verbatim>\<open>output\<close>\<close>

text \<open>
  C8, as the code has it. \<^verbatim>\<open>output(name)\<close> runs \<^verbatim>\<open><binary> output -json <name>\<close>.
  For a child process that exits: when it exits with a non-zero code and both captured
  streams are valid UTF-8, \<^verbatim>\<open>output\<close> returns \<^verbatim>\<open>None\<close> and does not raise, with no
  state reload; when it exits with code 0, the state file loads and both streams are
  valid UTF-8, \<^verbatim>\<open>output\<close> parses the stdout text, leading whitespace stripped, as JSON
  and returns what the parsed document holds under the key \<^verbatim>\<open>value\<close> (the parser's
  error, \<^verbatim>\<open>KeyError\<close> or \<^verbatim>\<open>TypeError\<close> is raised when there is no such value). In the
  remaining cases the error of the runner is raised: the loader's error after a zero
  exit whose state load fails, and \<^verbatim>\<open>UnicodeDecodeError\<close> when a stream is not valid
  UTF-8.
\<close>

theorem output_outcome:
  "generate_cmd_tokens (self m) ''output'' [name] [(''json'', Scalar (PStr []))] =
     [terraform_bin_path (self m), ''output'', ''-json'', name]
   \<and> (popen e (generate_cmd_string (self m) ''output'' [name] [(''json'', Scalar (PStr []))])
         (world m) = Some ((ret, ob, eb), w) \<longrightarrow>
       (\<exists>r m'. tf_output e name m = Some (r, m') \<and>
          (if ret \<noteq> 0
           then reloads m' = reloads m \<and> self m' = self m \<and>
                (case utf8_decode ob of
                   None \<Rightarrow> r = Inl UnicodeDecodeError
                 | Some out \<Rightarrow>
                     (case utf8_decode eb of
                        None \<Rightarrow> r = Inl UnicodeDecodeError
                      | Some err \<Rightarrow> r = Inr JNull))
           else reloads m' = reloads m + 1 \<and>
                (case load_file e (state_file_path (self m) None) w of
                   None \<Rightarrow> r = Inl StateLoadError
                 | Some d \<Rightarrow>
                     (case utf8_decode ob of
                        None \<Rightarrow> r = Inl UnicodeDecodeError
                      | Some out \<Rightarrow>
                          (case utf8_decode eb of
                             None \<Rightarrow> r = Inl UnicodeDecodeError
                           | Some err \<Rightarrow>
                               (case json_loads e (py_lstrip out) of
                                  None \<Rightarrow> r = Inl JSONDecodeError
                                | Some (JDict dict) \<Rightarrow>
                                    (case map_of dict (text_of ''value'') of
                                       None \<Rightarrow> r = Inl (KeyError (text_of ''value''))
                                     | Some v \<Rightarrow> r = Inr v)
                                | Some other \<Rightarrow> r = Inl TypeError)))))))"
proof -
  have tokens: "generate_cmd_tokens (self m) ''output'' [name] [(''json'', Scalar (PStr []))] =
     [terraform_bin_path (self m), ''output'', ''-json'', name]"
    by (simp add: generate_cmd_tokens_concat py_split_output option_name_def)
  have run: "\<exists>r m'. tf_output e name m = Some (r, m') \<and>
          (if ret \<noteq> 0
           then reloads m' = reloads m \<and> self m' = self m \<and>
                (case utf8_decode ob of
                   None \<Rightarrow> r = Inl UnicodeDecodeError
                 | Some out \<Rightarrow>
                     (case utf8_decode eb of
                        None \<Rightarrow> r = Inl UnicodeDecodeError
                      | Some err \<Rightarrow> r = Inr JNull))
           else reloads m' = reloads m + 1 \<and>
                (case load_file e (state_file_path (self m) None) w of
                   None \<Rightarrow> r = Inl StateLoadError
                 | Some d \<Rightarrow>
                     (case utf8_decode ob of
                        None \<Rightarrow> r = Inl UnicodeDecodeError
                      | Some out \<Rightarrow>
                          (case utf8_decode eb of
                             None \<Rightarrow> r = Inl UnicodeDecodeError
                           | Some err \<Rightarrow>
                               (case json_loads e (py_lstrip out) of
                                  None \<Rightarrow> r = Inl JSONDecodeError
                                | Some (JDict dict) \<Rightarrow>
                                    (case map_of dict (text_of ''value'') of
                                       None \<Rightarrow> r = Inl (KeyError (text_of ''value''))
                                     | Some v \<Rightarrow> r = Inr v)
                                | Some other \<Rightarrow> r = Inl TypeError)))))"
    if child: "popen e (generate_cmd_string (self m) ''output'' [name] [(''json'', Scalar (PStr []))])
         (world m) = Some ((ret, ob, eb), w)"
  proof (cases "ret = 0")
    case True
    show ?thesis
    proof (cases "load_file e (state_file_path (self m) None) w")
      case None
      with True child show ?thesis
        by (simp add: tf_output_def cmd_zero reloads_def)
    next
      case d: (Some d)
      show ?thesis
      proof (cases "utf8_decode ob")
        case None
        with True child d show ?thesis
          by (simp add: tf_output_def cmd_zero reloads_def)
      next
        case out: (Some out)
        show ?thesis
        proof (cases "utf8_decode eb")
          case None
          with True child d out show ?thesis
            by (simp add: tf_output_def cmd_zero reloads_def)
        next
          case err: (Some err)
          show ?thesis
          proof (cases "json_loads e (py_lstrip out)")
            case None
            with True child d out err show ?thesis
              by (simp add: tf_output_def cmd_zero reloads_def)
          next
            case (Some j)
            with True child d out err show ?thesis
              by (cases j) (simp_all add: tf_output_def cmd_zero reloads_def split: option.splits)
          qed
        qed
      qed
    qed
  next
    case False
    with child show ?thesis
      by (simp add: tf_output_def cmd_nonzero reloads_def split: option.splits)
  qed
  from tokens run show ?thesis by blast
qed

theorem output_outcome_witness:
  \<open>tf_output (fixed_env 0 (bytes_of '' {"value": 7}'') [] (Some ()) demo_loads) ''x''
       (fresh (init None None None None None None None)) =
     Some (Inr (JNum 7),
           \<lparr>self = (init None None None None None None None)\<lparr>tfstate := Some ()\<rparr>, world = (),
            trace = [Spawn ''terraform output -json x'', Load ''terraform.tfstate'']\<rparr>)
   \<and> tf_output (fixed_env 1 [] (bytes_of ''boom'') (Some ()) demo_loads) ''x''
       (fresh (init None None None None None None None)) =
     Some (Inr JNull,
           \<lparr>self = init None None None None None None None, world = (),
            trace = [Spawn ''terraform output -json x'']\<rparr>)\<close>
  using output_outcome [of "fresh (init None None None None None None None)" "''x''"
        "fixed_env 0 (bytes_of '' {\"value\": 7}'') [] (Some ()) demo_loads" 0
        "bytes_of '' {\"value\": 7}''" "[]" "()"]
      output_outcome [of "fresh (init None None None None None None None)" "''x''"
        "fixed_env 1 [] (bytes_of ''boom'') (Some ()) demo_loads" 1
        "[]" "bytes_of ''boom''" "()"]
  by (simp add: tf_output_def cmd_def fixed_env_def fresh_def generate_cmd_string_def
      generate_cmd_tokens_concat init_def py_split_output utf8_decode_def read_state_file_def
      state_file_path_def option_name_def bytes_of_def text_of_def demo_loads_def py_lstrip_def
      py_isspace_def)

text \<open>
  C8 as stated fails: a child that exits with code 1 and writes the byte \<^verbatim>\<open>0xFF\<close> to
  stderr makes \<^verbatim>\<open>output\<close> raise \<^verbatim>\<open>UnicodeDecodeError\<close> instead of returning \<^verbatim>\<open>None\<close>;
  and a child that exits with code 0 while the state file cannot be loaded makes
  \<^verbatim>\<open>output\<close> raise the loader's error instead of returning the value.
\<close>

theorem output_undecodable_stderr_counterexample:
  \<open>tf_output (fixed_env 1 [] [0xFF] (Some ()) demo_loads) ''x''
       (fresh (init None None None None None None None)) =
     Some (Inl UnicodeDecodeError,
           \<lparr>self = init None None None None None None None, world = (),
            trace = [Spawn ''terraform output -json x'']\<rparr>)
   \<and> tf_output (fixed_env 0 (bytes_of '' {"value": 7}'') [] None demo_loads) ''x''
       (fresh (init None None None None None None None)) =
     Some (Inl StateLoadError,
           \<lparr>self = init None None None None None None None, world = (),
            trace = [Spawn ''terraform output -json x'', Load ''terraform.tfstate'']\<rparr>)\<close>
  by (simp add: tf_output_def cmd_def fixed_env_def fresh_def generate_cmd_string_def
      generate_cmd_tokens_concat init_def py_split_output utf8_decode_def read_state_file_def
      state_file_path_def option_name_def bytes_of_def)

end
